theory Spec2Isabelle
  imports Main
begin

section \<open>The DOM values the directive reads\<close>

text \<open>
  A DOM node is identified by a number and carries its chain of ancestors, as
  \<^verbatim>\<open>node.parentNode\<close> does: two values are the same node exactly when they are equal.
\<close>

datatype node = Node nat "node option"

text \<open>
  Modelled from the spec: the platform's \<^verbatim>\<open>Node.contains\<close>, which the directive calls on
  its host element and which is not part of the repository. The glossary defines it: a node
  N is contained by element T if N is T or a descendant of T in the DOM hierarchy.
\<close>

fun contains :: "node \<Rightarrow> node \<Rightarrow> bool" where
  "contains host (Node i p) =
     (Node i p = host \<or> (case p of None \<Rightarrow> False | Some q \<Rightarrow> contains host q))"

text \<open>
  The fields of a \<^verbatim>\<open>MouseEvent\<close> that the directive reads. Each is an object reference
  or null; a reference is truthy, null is falsy.
\<close>

record mouse_event =
  target :: "node option"
  relatedTarget :: "node option"
  toElement :: "node option"

text \<open>A \<^verbatim>\<open>Touch\<close> point: only its \<^verbatim>\<open>target\<close> is read.\<close>

record touch =
  touch_target :: "node option"

text \<open>
  A \<^verbatim>\<open>TouchEvent\<close> with its three touch lists. \<^verbatim>\<open>changedTouches\<close> may be missing, and
  an entry of it may be null: the handler guards both.
\<close>

record touch_event =
  touches :: "touch list"
  targetTouches :: "touch list"
  changedTouches :: "touch option list option"

text \<open>What \<^verbatim>\<open>interactOutsideEvent\<close> emits: \<^verbatim>\<open>MouseEvent | TouchEvent\<close>.\<close>

datatype ui_event = MouseEv mouse_event | TouchEv touch_event

section \<open>The renderer\<close>

text \<open>
  \<^verbatim>\<open>Renderer2.listen(target, eventName, callback)\<close> registers a listener and returns a
  function that removes it. The renderer state kept here is the list of listeners that the
  directive has registered and not yet removed, each with a fresh number, and the next
  number to hand out. The directive registers one callback per event name
  (\<^verbatim>\<open>handleMouseDown\<close>, \<^verbatim>\<open>handleTouchStart\<close>, \<^verbatim>\<open>handleMouseLeave\<close>), so the name
  determines the callback.
\<close>

datatype listen_target = Document | Element node

datatype event_name = mousedown | touchstart | mouseleave

type_synonym listener = "nat \<times> listen_target \<times> event_name"

record renderer =
  registered :: "listener list"
  next_id :: nat

text \<open>
  A listener field of the directive: declared without initialiser (\<^verbatim>\<open>undefined\<close>), set
  to \<^verbatim>\<open>null\<close> by \<^verbatim>\<open>clearListeners\<close>, or the removal function of a registration.
\<close>

datatype unlisten_fn = Undefined | Null | Unlisten nat

fun truthy :: "unlisten_fn \<Rightarrow> bool" where
  "truthy (Unlisten i) = True"
| "truthy Undefined = False"
| "truthy Null = False"

definition fresh_renderer :: renderer where
  "fresh_renderer = \<lparr>registered = [], next_id = 0\<rparr>"

definition listen :: "listen_target \<Rightarrow> event_name \<Rightarrow> renderer \<Rightarrow> renderer \<times> unlisten_fn" where
  "listen tgt name r =
     (r\<lparr>registered := registered r @ [(next_id r, tgt, name)], next_id := Suc (next_id r)\<rparr>,
      Unlisten (next_id r))"

text \<open>Calling a removal function; removing a listener that is gone does nothing.\<close>

definition unlisten :: "nat \<Rightarrow> renderer \<Rightarrow> renderer" where
  "unlisten i r = r\<lparr>registered := filter (\<lambda>l. fst l \<noteq> i) (registered r)\<rparr>"

section \<open>The directive\<close>

text \<open>
  The fields of \<^verbatim>\<open>InteractOutsideDirective\<close>; \<^verbatim>\<open>u_isListening\<close> is \<^verbatim>\<open>_isListening\<close>
  and so on. Each of the two \<^verbatim>\<open>EventEmitter\<close>s is the list of the values it has emitted,
  oldest first.
\<close>

record directive =
  u_isListening :: bool
  u_listenMouseDownOutside :: bool
  u_listenTouchStartOutside :: bool
  u_listenMouseLeave :: bool
  interactOutsideEvent :: "ui_event list"
  mouseLeaveEvent :: "mouse_event list"
  htmlElement :: node
  isInitialized :: bool
  mouseDownListener :: unlisten_fn
  touchStartListener :: unlisten_fn
  mouseLeaveListener :: unlisten_fn
  renderer :: renderer

record CurrentState =
  isListening :: bool
  listenMouseDownOutside :: bool
  listenTouchStartOutside :: bool
  listenMouseLeave :: bool
  listenersCleared :: bool

definition constructor :: "node \<Rightarrow> renderer \<Rightarrow> directive" where
  "constructor elementRef rend =
     \<lparr>u_isListening = True,
      u_listenMouseDownOutside = True,
      u_listenTouchStartOutside = False,
      u_listenMouseLeave = False,
      interactOutsideEvent = [],
      mouseLeaveEvent = [],
      htmlElement = elementRef,
      isInitialized = False,
      mouseDownListener = Undefined,
      touchStartListener = Undefined,
      mouseLeaveListener = Undefined,
      renderer = rend\<rparr>"

text \<open>\<^verbatim>\<open>cleared = this.xListener && this.xListener()\<close>: the call happens for a truthy field.\<close>

fun call_if_set :: "unlisten_fn \<Rightarrow> renderer \<Rightarrow> renderer" where
  "call_if_set (Unlisten i) r = unlisten i r"
| "call_if_set Undefined r = r"
| "call_if_set Null r = r"

definition clearListeners :: "directive \<Rightarrow> directive" where
  "clearListeners d =
     (let r1 = call_if_set (mouseDownListener d) (renderer d);
          r2 = call_if_set (touchStartListener d) r1;
          r3 = call_if_set (mouseLeaveListener d) r2
      in d\<lparr>mouseDownListener := Null,
            touchStartListener := Null,
            mouseLeaveListener := Null,
            renderer := r3\<rparr>)"

definition updateListeners :: "directive \<Rightarrow> directive" where
  "updateListeners d =
     (let d0 = clearListeners d in
      if u_isListening d0 then
        let d1 = (if u_listenMouseDownOutside d0
                  then (let (r, f) = listen Document mousedown (renderer d0)
                        in d0\<lparr>mouseDownListener := f, renderer := r\<rparr>)
                  else d0);
            d2 = (if u_listenTouchStartOutside d1
                  then (let (r, f) = listen Document touchstart (renderer d1)
                        in d1\<lparr>touchStartListener := f, renderer := r\<rparr>)
                  else d1);
            d3 = (if u_listenMouseLeave d2
                  then (let (r, f) = listen (Element (htmlElement d2)) mouseleave (renderer d2)
                        in d2\<lparr>mouseLeaveListener := f, renderer := r\<rparr>)
                  else d2)
        in d3
      else d0)"

definition ngOnInit :: "directive \<Rightarrow> directive" where
  "ngOnInit d = updateListeners (d\<lparr>isInitialized := True\<rparr>)"

definition ngOnDestroy :: "directive \<Rightarrow> directive" where
  "ngOnDestroy d = clearListeners d"

definition set_isListening :: "bool \<Rightarrow> directive \<Rightarrow> directive" where
  "set_isListening v d =
     (let d' = d\<lparr>u_isListening := v\<rparr>
      in if isInitialized d' then updateListeners d' else d')"

definition set_listenMouseDownOutside :: "bool \<Rightarrow> directive \<Rightarrow> directive" where
  "set_listenMouseDownOutside v d =
     (let d' = d\<lparr>u_listenMouseDownOutside := v\<rparr>
      in if isInitialized d' then updateListeners d' else d')"

definition set_listenTouchStartOutside :: "bool \<Rightarrow> directive \<Rightarrow> directive" where
  "set_listenTouchStartOutside v d =
     (let d' = d\<lparr>u_listenTouchStartOutside := v\<rparr>
      in if isInitialized d' then updateListeners d' else d')"

definition set_listenMouseLeave :: "bool \<Rightarrow> directive \<Rightarrow> directive" where
  "set_listenMouseLeave v d =
     (let d' = d\<lparr>u_listenMouseLeave := v\<rparr>
      in if isInitialized d' then updateListeners d' else d')"

text \<open>
  The handlers. The argument is \<^verbatim>\<open>None\<close> for a null event, which \<^verbatim>\<open>event &&\<close> guards.
\<close>

definition handleMouseDown :: "mouse_event option \<Rightarrow> directive \<Rightarrow> directive" where
  "handleMouseDown event d =
     (case event of
        None \<Rightarrow> d
      | Some e \<Rightarrow>
          (case target e of
             None \<Rightarrow> d
           | Some n \<Rightarrow>
               if \<not> contains (htmlElement d) n
               then d\<lparr>interactOutsideEvent := interactOutsideEvent d @ [MouseEv e]\<rparr>
               else d))"

definition handleTouchStart :: "touch_event option \<Rightarrow> directive \<Rightarrow> directive" where
  "handleTouchStart event d =
     (case event of
        None \<Rightarrow> d
      | Some e \<Rightarrow>
          (case changedTouches e of
             None \<Rightarrow> d
           | Some [] \<Rightarrow> d
           | Some (t0 # rest) \<Rightarrow>
               (case t0 of
                  None \<Rightarrow> d
                | Some t \<Rightarrow>
                    (case touch_target t of
                       None \<Rightarrow> d
                     | Some n \<Rightarrow>
                         if \<not> contains (htmlElement d) n
                         then d\<lparr>interactOutsideEvent := interactOutsideEvent d @ [TouchEv e]\<rparr>
                         else d))))"

definition handleMouseLeave :: "mouse_event option \<Rightarrow> directive \<Rightarrow> directive" where
  "handleMouseLeave event d =
     (case event of
        None \<Rightarrow> d
      | Some e \<Rightarrow>
          if relatedTarget e \<noteq> None \<or> toElement e \<noteq> None
          then d\<lparr>mouseLeaveEvent := mouseLeaveEvent d @ [e]\<rparr>
          else d)"

definition currentState :: "directive \<Rightarrow> CurrentState" where
  "currentState d =
     \<lparr>isListening = u_isListening d,
      listenMouseDownOutside = u_listenMouseDownOutside d,
      listenTouchStartOutside = u_listenTouchStartOutside d,
      listenMouseLeave = u_listenMouseLeave d,
      listenersCleared = (\<not> truthy (mouseDownListener d) \<and> \<not> truthy (touchStartListener d)
                          \<and> \<not> truthy (mouseLeaveListener d))\<rparr>"

section \<open>Event delivery and the directive's life\<close>

text \<open>An event as the platform hands it to a listener, by kind.\<close>

datatype dom_event =
  MouseDownEvent mouse_event
| TouchStartEvent touch_event
| MouseLeaveEvent mouse_event

fun event_type :: "dom_event \<Rightarrow> event_name" where
  "event_type (MouseDownEvent e) = mousedown"
| "event_type (TouchStartEvent e) = touchstart"
| "event_type (MouseLeaveEvent e) = mouseleave"

text \<open>The callbacks that \<^verbatim>\<open>updateListeners\<close> passes to \<^verbatim>\<open>renderer.listen\<close>.\<close>

fun callback :: "dom_event \<Rightarrow> directive \<Rightarrow> directive" where
  "callback (MouseDownEvent e) d = handleMouseDown (Some e) d"
| "callback (TouchStartEvent e) d = handleTouchStart (Some e) d"
| "callback (MouseLeaveEvent e) d = handleMouseLeave (Some e) d"

text \<open>
  The platform delivers an event to an event target: every listener registered on that
  target under the event's name is called once, in registration order.
\<close>

definition dispatchEvent :: "listen_target \<Rightarrow> dom_event \<Rightarrow> directive \<Rightarrow> directive" where
  "dispatchEvent tgt ev d =
     fold (\<lambda>l. callback ev)
       (filter (\<lambda>l. fst (snd l) = tgt \<and> snd (snd l) = event_type ev) (registered (renderer d))) d"

text \<open>What a caller or the platform can do to a directive, and runs of such operations.\<close>

datatype operation =
  NgOnInit
| NgOnDestroy
| SetIsListening bool
| SetListenMouseDownOutside bool
| SetListenTouchStartOutside bool
| SetListenMouseLeave bool
| Dispatch listen_target dom_event

fun step :: "operation \<Rightarrow> directive \<Rightarrow> directive" where
  "step NgOnInit d = ngOnInit d"
| "step NgOnDestroy d = ngOnDestroy d"
| "step (SetIsListening v) d = set_isListening v d"
| "step (SetListenMouseDownOutside v) d = set_listenMouseDownOutside v d"
| "step (SetListenTouchStartOutside v) d = set_listenTouchStartOutside v d"
| "step (SetListenMouseLeave v) d = set_listenMouseLeave v d"
| "step (Dispatch tgt ev) d = dispatchEvent tgt ev d"

fun run :: "operation list \<Rightarrow> directive \<Rightarrow> directive" where
  "run [] d = d"
| "run (x # xs) d = run xs (step x d)"

fun is_update :: "operation \<Rightarrow> bool" where
  "is_update (SetIsListening v) = True"
| "is_update (SetListenMouseDownOutside v) = True"
| "is_update (SetListenTouchStartOutside v) = True"
| "is_update (SetListenMouseLeave v) = True"
| "is_update x = False"

fun is_dispatch :: "operation \<Rightarrow> bool" where
  "is_dispatch (Dispatch tgt ev) = True"
| "is_dispatch x = False"

text \<open>The operations that run \<^verbatim>\<open>updateListeners\<close> on an initialised directive.\<close>

definition rederives :: "operation \<Rightarrow> bool" where
  "rederives x = (x = NgOnInit \<or> is_update x)"

text \<open>The listeners that the three listener fields stand for, in installation order.\<close>

fun held :: "unlisten_fn \<Rightarrow> listen_target \<Rightarrow> event_name \<Rightarrow> listener list" where
  "held (Unlisten i) tgt name = [(i, tgt, name)]"
| "held Undefined tgt name = []"
| "held Null tgt name = []"

definition owned :: "directive \<Rightarrow> listener list" where
  "owned d =
     held (mouseDownListener d) Document mousedown
     @ held (touchStartListener d) Document touchstart
     @ held (mouseLeaveListener d) (Element (htmlElement d)) mouseleave"

text \<open>How many listeners are installed under an event name.\<close>

definition installed :: "event_name \<Rightarrow> directive \<Rightarrow> nat" where
  "installed name d = length (filter (\<lambda>l. snd (snd l) = name) (registered (renderer d)))"

text \<open>
  The listeners registered with the renderer are exactly those the listener fields stand for:
  none is registered without its removal function being held.
\<close>

definition synced :: "directive \<Rightarrow> bool" where
  "synced d = (registered (renderer d) = owned d)"

text \<open>The listener fields are as the configuration says: held for a kind exactly when
  \<^verbatim>\<open>_isListening\<close> and the flag of the kind are both true.\<close>

definition derived :: "directive \<Rightarrow> bool" where
  "derived d =
     (truthy (mouseDownListener d) = (u_isListening d \<and> u_listenMouseDownOutside d)
      \<and> truthy (touchStartListener d) = (u_isListening d \<and> u_listenTouchStartOutside d)
      \<and> truthy (mouseLeaveListener d) = (u_isListening d \<and> u_listenMouseLeave d))"

text \<open>Every field of the directive other than what the two emitters have emitted.\<close>

definition component_state ::
  "directive \<Rightarrow> (bool \<times> bool \<times> bool \<times> bool) \<times> node \<times> bool
     \<times> (unlisten_fn \<times> unlisten_fn \<times> unlisten_fn) \<times> renderer" where
  "component_state d =
     ((u_isListening d, u_listenMouseDownOutside d, u_listenTouchStartOutside d,
       u_listenMouseLeave d),
      htmlElement d, isInitialized d,
      (mouseDownListener d, touchStartListener d, mouseLeaveListener d),
      renderer d)"

text \<open>
  A directive as the constructor left it, up to its four configuration flags: not
  initialised, no listener field assigned, the renderer and both emitters unused.
\<close>

definition untouched :: "node \<Rightarrow> renderer \<Rightarrow> directive \<Rightarrow> bool" where
  "untouched el rend d =
     (\<not> isInitialized d
      \<and> mouseDownListener d = Undefined
      \<and> touchStartListener d = Undefined
      \<and> mouseLeaveListener d = Undefined
      \<and> renderer d = rend
      \<and> interactOutsideEvent d = []
      \<and> mouseLeaveEvent d = []
      \<and> htmlElement d = el)"

section \<open>A small document\<close>

text \<open>
  The host element with its parent, a child and a sibling, under the document node.
\<close>

definition ex_document :: node where
  "ex_document = Node 0 None"

definition ex_parent :: node where
  "ex_parent = Node 1 (Some ex_document)"

definition ex_host :: node where
  "ex_host = Node 2 (Some ex_parent)"

definition ex_child :: node where
  "ex_child = Node 3 (Some ex_host)"

definition ex_sibling :: node where
  "ex_sibling = Node 4 (Some ex_parent)"

text \<open>
  Two touch events whose first changed touch is outside and inside the host, the other
  entries of their touch lists pointing the opposite way, and a start-up with every flag on.
\<close>

definition ex_touch_outside :: touch_event where
  "ex_touch_outside =
     \<lparr>touches = [\<lparr>touch_target = Some ex_host\<rparr>, \<lparr>touch_target = Some ex_sibling\<rparr>],
      targetTouches = [\<lparr>touch_target = Some ex_child\<rparr>],
      changedTouches = Some [Some \<lparr>touch_target = Some ex_sibling\<rparr>,
                             Some \<lparr>touch_target = Some ex_host\<rparr>]\<rparr>"

definition ex_touch_inside :: touch_event where
  "ex_touch_inside =
     \<lparr>touches = [\<lparr>touch_target = Some ex_sibling\<rparr>],
      targetTouches = [\<lparr>touch_target = Some ex_sibling\<rparr>],
      changedTouches = Some [Some \<lparr>touch_target = Some ex_child\<rparr>,
                             Some \<lparr>touch_target = Some ex_sibling\<rparr>]\<rparr>"

definition ex_all_on :: "operation list" where
  "ex_all_on = [SetListenTouchStartOutside True, SetListenMouseLeave True, NgOnInit]"

text \<open>
  A mouse-down on the sibling, a leave of the host towards the sibling, the three of them
  delivered in a row, a run that toggles one flag back and forth, and a run of configuration
  updates alone.
\<close>

definition ex_down_outside :: mouse_event where
  "ex_down_outside = \<lparr>target = Some ex_sibling, relatedTarget = None, toElement = None\<rparr>"

definition ex_leave :: mouse_event where
  "ex_leave = \<lparr>target = Some ex_host, relatedTarget = Some ex_sibling, toElement = None\<rparr>"

definition ex_events :: "operation list" where
  "ex_events =
     [Dispatch Document (MouseDownEvent ex_down_outside),
      Dispatch Document (TouchStartEvent ex_touch_outside),
      Dispatch (Element ex_host) (MouseLeaveEvent ex_leave)]"

definition ex_toggles :: "operation list" where
  "ex_toggles =
     [NgOnInit, SetListenTouchStartOutside True, SetListenTouchStartOutside False,
      SetListenTouchStartOutside True, SetListenMouseLeave True, SetIsListening False]"

definition ex_updates :: "operation list" where
  "ex_updates =
     [SetListenMouseLeave True, SetIsListening False, SetListenTouchStartOutside True,
      SetListenMouseDownOutside False, SetIsListening True]"

section \<open>Basic facts\<close>

lemma contains_refl: "contains h h"
  by (cases h) simp

lemma clearListeners_fields:
  "u_isListening (clearListeners d) = u_isListening d"
  "u_listenMouseDownOutside (clearListeners d) = u_listenMouseDownOutside d"
  "u_listenTouchStartOutside (clearListeners d) = u_listenTouchStartOutside d"
  "u_listenMouseLeave (clearListeners d) = u_listenMouseLeave d"
  "interactOutsideEvent (clearListeners d) = interactOutsideEvent d"
  "mouseLeaveEvent (clearListeners d) = mouseLeaveEvent d"
  "htmlElement (clearListeners d) = htmlElement d"
  "isInitialized (clearListeners d) = isInitialized d"
  "mouseDownListener (clearListeners d) = Null"
  "touchStartListener (clearListeners d) = Null"
  "mouseLeaveListener (clearListeners d) = Null"
  by (simp_all add: clearListeners_def Let_def)

lemma call_if_set_next_id: "next_id (call_if_set f r) = next_id r"
  by (cases f) (simp_all add: unlisten_def)

lemma clearListeners_next_id:
  "next_id (renderer (clearListeners d)) = next_id (renderer d)"
  by (simp add: clearListeners_def Let_def call_if_set_next_id)

lemma clearListeners_registered:
  "synced d \<Longrightarrow> registered (renderer (clearListeners d)) = []"
  by (cases "mouseDownListener d"; cases "touchStartListener d"; cases "mouseLeaveListener d")
     (auto simp: synced_def owned_def clearListeners_def Let_def unlisten_def)

lemma clearListeners_renderer:
  "synced d \<Longrightarrow> renderer (clearListeners d) = \<lparr>registered = [], next_id = next_id (renderer d)\<rparr>"
  using clearListeners_registered[of d] clearListeners_next_id[of d]
  by (cases "renderer (clearListeners d)") simp

lemma updateListeners_fields:
  "u_isListening (updateListeners d) = u_isListening d"
  "u_listenMouseDownOutside (updateListeners d) = u_listenMouseDownOutside d"
  "u_listenTouchStartOutside (updateListeners d) = u_listenTouchStartOutside d"
  "u_listenMouseLeave (updateListeners d) = u_listenMouseLeave d"
  "interactOutsideEvent (updateListeners d) = interactOutsideEvent d"
  "mouseLeaveEvent (updateListeners d) = mouseLeaveEvent d"
  "htmlElement (updateListeners d) = htmlElement d"
  "isInitialized (updateListeners d) = isInitialized d"
  by (simp_all add: updateListeners_def Let_def clearListeners_fields listen_def)

lemma updateListeners_handles:
  "truthy (mouseDownListener (updateListeners d)) = (u_isListening d \<and> u_listenMouseDownOutside d)"
  "truthy (touchStartListener (updateListeners d)) = (u_isListening d \<and> u_listenTouchStartOutside d)"
  "truthy (mouseLeaveListener (updateListeners d)) = (u_isListening d \<and> u_listenMouseLeave d)"
  by (simp_all add: updateListeners_def Let_def clearListeners_fields listen_def)

lemma updateListeners_synced:
  assumes "synced d"
  shows "synced (updateListeners d)"
proof -
  have r: "renderer (clearListeners d) = \<lparr>registered = [], next_id = next_id (renderer d)\<rparr>"
    using assms by (rule clearListeners_renderer)
  show ?thesis
    unfolding synced_def
    by (simp add: updateListeners_def Let_def clearListeners_fields r listen_def owned_def)
qed

lemma updateListeners_distinct:
  "synced d \<Longrightarrow> distinct (map fst (registered (renderer (updateListeners d))))"
  by (simp add: updateListeners_def Let_def clearListeners_fields
      clearListeners_renderer listen_def)

lemmas ex_nodes = ex_document_def ex_parent_def ex_host_def ex_child_def ex_sibling_def

lemmas directive_defs =
  constructor_def fresh_renderer_def ngOnInit_def ngOnDestroy_def updateListeners_def
  clearListeners_def listen_def unlisten_def set_isListening_def set_listenMouseDownOutside_def
  set_listenTouchStartOutside_def set_listenMouseLeave_def dispatchEvent_def
  handleMouseDown_def handleTouchStart_def handleMouseLeave_def Let_def

lemma handleMouseDown_component:
  "component_state (handleMouseDown ev d) = component_state d"
  by (simp add: handleMouseDown_def component_state_def split: option.splits)

lemma handleTouchStart_component:
  "component_state (handleTouchStart ev d) = component_state d"
  by (simp add: handleTouchStart_def component_state_def split: option.splits list.splits)

lemma handleMouseLeave_component:
  "component_state (handleMouseLeave ev d) = component_state d"
  by (simp add: handleMouseLeave_def component_state_def split: option.splits)

lemma callback_component: "component_state (callback ev d) = component_state d"
  by (cases ev)
     (simp_all add: handleMouseDown_component handleTouchStart_component
        handleMouseLeave_component)

lemma fold_callback_component:
  "component_state (fold (\<lambda>l. callback ev) ls d) = component_state d"
  by (induction ls arbitrary: d) (simp_all add: callback_component)

lemma dispatchEvent_component:
  "component_state (dispatchEvent tgt ev d) = component_state d"
  by (simp add: dispatchEvent_def fold_callback_component)

lemma component_currentState:
  "component_state d' = component_state d \<Longrightarrow> currentState d' = currentState d"
  by (simp add: component_state_def currentState_def)

lemma component_synced:
  "component_state d' = component_state d \<Longrightarrow> synced d' = synced d"
  by (simp add: component_state_def synced_def owned_def)

lemma component_derived:
  "component_state d' = component_state d \<Longrightarrow> derived d' = derived d"
  by (simp add: component_state_def derived_def)

lemma component_isInitialized:
  "component_state d' = component_state d \<Longrightarrow> isInitialized d' = isInitialized d"
  by (simp add: component_state_def)

lemma dispatchEvent_none:
  "registered (renderer d) = [] \<Longrightarrow> dispatchEvent tgt ev d = d"
  by (simp add: dispatchEvent_def)

lemma run_dispatch_none:
  "list_all is_dispatch ys \<Longrightarrow> registered (renderer d) = [] \<Longrightarrow> run ys d = d"
proof (induction ys)
  case Nil
  show ?case by simp
next
  case (Cons y ys)
  from Cons.prems(1) obtain tgt ev where y: "y = Dispatch tgt ev"
    by (cases y) simp_all
  from Cons show ?case by (simp add: y dispatchEvent_none)
qed

lemma synced_init_flag: "synced (d\<lparr>isInitialized := b\<rparr>) = synced d"
  by (simp add: synced_def owned_def)

lemma synced_config:
  "synced (d\<lparr>u_isListening := b\<rparr>) = synced d"
  "synced (d\<lparr>u_listenMouseDownOutside := b\<rparr>) = synced d"
  "synced (d\<lparr>u_listenTouchStartOutside := b\<rparr>) = synced d"
  "synced (d\<lparr>u_listenMouseLeave := b\<rparr>) = synced d"
  by (simp_all add: synced_def owned_def)

lemma clearListeners_synced: "synced d \<Longrightarrow> synced (clearListeners d)"
  using clearListeners_registered[of d]
  by (simp add: synced_def[of "clearListeners d"] owned_def clearListeners_fields)

lemma step_synced: "synced d \<Longrightarrow> synced (step x d)"
  by (cases x)
     (simp_all add: ngOnInit_def ngOnDestroy_def set_isListening_def
        set_listenMouseDownOutside_def set_listenTouchStartOutside_def set_listenMouseLeave_def
        Let_def updateListeners_synced clearListeners_synced synced_init_flag synced_config
        component_synced[OF dispatchEvent_component])

lemma run_synced: "synced d \<Longrightarrow> synced (run xs d)"
  by (induction xs arbitrary: d) (simp_all add: step_synced)

lemma constructor_synced: "synced (constructor el fresh_renderer)"
  by (simp add: synced_def owned_def constructor_def fresh_renderer_def)

lemma reachable_synced: "synced (run xs (constructor el fresh_renderer))"
  by (rule run_synced) (rule constructor_synced)

lemma updateListeners_derived: "derived (updateListeners d)"
  by (simp add: derived_def updateListeners_handles updateListeners_fields)

lemma synced_installed:
  assumes "synced d"
  shows "installed mousedown d = (if truthy (mouseDownListener d) then 1 else 0)"
    and "installed touchstart d = (if truthy (touchStartListener d) then 1 else 0)"
    and "installed mouseleave d = (if truthy (mouseLeaveListener d) then 1 else 0)"
  using assms
  by (cases "mouseDownListener d"; cases "touchStartListener d"; cases "mouseLeaveListener d";
      simp add: synced_def owned_def installed_def)+

lemma step_rederives:
  "rederives x \<Longrightarrow> isInitialized (step x d) \<Longrightarrow> \<exists>d'. step x d = updateListeners d' \<and> synced d' = synced d"
  by (cases x)
     (auto simp: rederives_def ngOnInit_def set_isListening_def set_listenMouseDownOutside_def
        set_listenTouchStartOutside_def set_listenMouseLeave_def Let_def synced_init_flag
        synced_config split: if_splits)

lemma dispatch_single:
  assumes "synced d"
  shows "truthy (mouseDownListener d) \<Longrightarrow>
           dispatchEvent Document (MouseDownEvent e) d = handleMouseDown (Some e) d"
    and "truthy (touchStartListener d) \<Longrightarrow>
           dispatchEvent Document (TouchStartEvent t) d = handleTouchStart (Some t) d"
    and "truthy (mouseLeaveListener d) \<Longrightarrow>
           dispatchEvent (Element (htmlElement d)) (MouseLeaveEvent e) d
             = handleMouseLeave (Some e) d"
  using assms
  by (cases "mouseDownListener d"; cases "touchStartListener d"; cases "mouseLeaveListener d";
      simp add: synced_def owned_def dispatchEvent_def)+

lemma step_update_untouched:
  "is_update x \<Longrightarrow> untouched el rend d \<Longrightarrow> untouched el rend (step x d)"
  by (cases x)
     (simp_all add: untouched_def set_isListening_def set_listenMouseDownOutside_def
        set_listenTouchStartOutside_def set_listenMouseLeave_def)

lemma run_updates_untouched:
  "list_all is_update xs \<Longrightarrow> untouched el rend d \<Longrightarrow> untouched el rend (run xs d)"
  by (induction xs arbitrary: d) (simp_all add: step_update_untouched)

lemma constructor_untouched: "untouched el rend (constructor el rend)"
  by (simp add: untouched_def constructor_def)

lemma ngOnInit_untouched:
  assumes "untouched el rend d"
  shows "registered (renderer (ngOnInit d)) = registered rend @ owned (ngOnInit d)"
  using assms
  by (simp add: untouched_def ngOnInit_def updateListeners_def clearListeners_def listen_def
      owned_def Let_def)

lemma step_derived:
  "x \<noteq> NgOnDestroy \<Longrightarrow> (isInitialized d \<longrightarrow> derived d)
     \<Longrightarrow> isInitialized (step x d) \<longrightarrow> derived (step x d)"
  by (cases x)
     (simp_all add: ngOnInit_def set_isListening_def set_listenMouseDownOutside_def
        set_listenTouchStartOutside_def set_listenMouseLeave_def updateListeners_derived
        updateListeners_fields Let_def component_derived[OF dispatchEvent_component]
        component_isInitialized[OF dispatchEvent_component])

lemma run_derived:
  "NgOnDestroy \<notin> set xs \<Longrightarrow> (isInitialized d \<longrightarrow> derived d)
     \<Longrightarrow> isInitialized (run xs d) \<longrightarrow> derived (run xs d)"
proof (induction xs arbitrary: d)
  case Nil
  then show ?case by simp
next
  case (Cons x xs)
  from Cons.prems have "x \<noteq> NgOnDestroy" and rest: "NgOnDestroy \<notin> set xs"
    by auto
  from step_derived[OF this(1) Cons.prems(2)]
  have "isInitialized (step x d) \<longrightarrow> derived (step x d)" .
  from Cons.IH[OF rest this] show ?case by simp
qed

lemma updateListeners_currentState:
  "derived d \<Longrightarrow> currentState (updateListeners d) = currentState d"
  by (simp add: currentState_def derived_def updateListeners_fields updateListeners_handles)

lemma updateListeners_installed:
  assumes "synced d" and "derived d"
  shows "installed name (updateListeners d) = installed name d"
proof -
  have su: "synced (updateListeners d)"
    using assms(1) by (rule updateListeners_synced)
  have t: "truthy (mouseDownListener (updateListeners d)) = truthy (mouseDownListener d)
      \<and> truthy (touchStartListener (updateListeners d)) = truthy (touchStartListener d)
      \<and> truthy (mouseLeaveListener (updateListeners d)) = truthy (mouseLeaveListener d)"
    using assms(2) by (simp add: derived_def updateListeners_handles)
  show ?thesis
    using t synced_installed[OF su] synced_installed[OF assms(1)]
    by (cases name) simp_all
qed

lemma step_isInitialized: "isInitialized d \<Longrightarrow> isInitialized (step x d)"
  by (cases x)
     (simp_all add: ngOnInit_def ngOnDestroy_def set_isListening_def
        set_listenMouseDownOutside_def set_listenTouchStartOutside_def set_listenMouseLeave_def
        updateListeners_fields clearListeners_fields
        component_isInitialized[OF dispatchEvent_component])

lemma run_isInitialized: "isInitialized d \<Longrightarrow> isInitialized (run xs d)"
  by (induction xs arbitrary: d) (simp_all add: step_isInitialized)

section \<open>The claims\<close>

text \<open>
  C1. Take any run of operations from construction, and let it end with \<^verbatim>\<open>ngOnInit\<close> or
  a configuration update that leaves the directive initialised, so that
  \<^verbatim>\<open>updateListeners\<close> has just run. Then each of the three listener fields is held exactly
  when \<^verbatim>\<open>_isListening\<close> and the flag of its kind are both true; the listeners registered
  with the renderer are exactly those the fields stand for (none orphaned), their numbers
  are distinct, and under each event name one listener is registered if the kind is
  enabled and none otherwise.
\<close>

theorem subscriptions_exact:
  assumes "d = step x (run xs (constructor el fresh_renderer))"
    and "rederives x"
    and "isInitialized d"
  shows "truthy (mouseDownListener d) = (u_isListening d \<and> u_listenMouseDownOutside d)
    \<and> truthy (touchStartListener d) = (u_isListening d \<and> u_listenTouchStartOutside d)
    \<and> truthy (mouseLeaveListener d) = (u_isListening d \<and> u_listenMouseLeave d)
    \<and> registered (renderer d) = owned d
    \<and> distinct (map fst (registered (renderer d)))
    \<and> installed mousedown d = (if u_isListening d \<and> u_listenMouseDownOutside d then 1 else 0)
    \<and> installed touchstart d = (if u_isListening d \<and> u_listenTouchStartOutside d then 1 else 0)
    \<and> installed mouseleave d = (if u_isListening d \<and> u_listenMouseLeave d then 1 else 0)"
proof -
  let ?d = "run xs (constructor el fresh_renderer)"
  from assms(3) have "isInitialized (step x ?d)"
    by (simp add: assms(1))
  from step_rederives[OF assms(2) this] obtain d' where
    eq: "d = updateListeners d'" and s: "synced d' = synced ?d"
    unfolding assms(1) by blast
  have sd: "synced d'"
    using s reachable_synced by simp
  have su: "synced (updateListeners d')"
    using sd by (rule updateListeners_synced)
  have der: "derived (updateListeners d')"
    by (rule updateListeners_derived)
  have dist: "distinct (map fst (registered (renderer (updateListeners d'))))"
    using sd by (rule updateListeners_distinct)
  show ?thesis
    unfolding eq
    using der su dist synced_installed[OF su]
    by (simp add: derived_def synced_def)
qed

theorem subscriptions_exact_witness:
  "rederives (SetIsListening True)
   \<and> isInitialized (step (SetIsListening True) (run ex_toggles (constructor ex_host fresh_renderer)))
   \<and> registered (renderer
        (step (SetIsListening True) (run ex_toggles (constructor ex_host fresh_renderer))))
      = owned (step (SetIsListening True) (run ex_toggles (constructor ex_host fresh_renderer)))
   \<and> registered (renderer
        (step (SetIsListening True) (run ex_toggles (constructor ex_host fresh_renderer))))
      = [(9, Document, mousedown), (10, Document, touchstart), (11, Element ex_host, mouseleave)]
   \<and> installed mousedown
        (step (SetIsListening True) (run ex_toggles (constructor ex_host fresh_renderer))) = 1
   \<and> installed touchstart
        (step (SetIsListening True) (run ex_toggles (constructor ex_host fresh_renderer))) = 1
   \<and> installed mouseleave
        (step (SetIsListening True) (run ex_toggles (constructor ex_host fresh_renderer))) = 1
   \<and> truthy (touchStartListener
        (step (SetIsListening True) (run ex_toggles (constructor ex_host fresh_renderer))))"
proof -
  have r: "rederives (SetIsListening True)"
    by (simp add: rederives_def)
  have i: "isInitialized
      (step (SetIsListening True) (run ex_toggles (constructor ex_host fresh_renderer)))"
    by (simp add: directive_defs ex_toggles_def)
  have c: "u_isListening
        (step (SetIsListening True) (run ex_toggles (constructor ex_host fresh_renderer)))
      \<and> u_listenMouseDownOutside
        (step (SetIsListening True) (run ex_toggles (constructor ex_host fresh_renderer)))
      \<and> u_listenTouchStartOutside
        (step (SetIsListening True) (run ex_toggles (constructor ex_host fresh_renderer)))
      \<and> u_listenMouseLeave
        (step (SetIsListening True) (run ex_toggles (constructor ex_host fresh_renderer)))"
    by (simp add: directive_defs ex_toggles_def)
  have g: "registered (renderer
        (step (SetIsListening True) (run ex_toggles (constructor ex_host fresh_renderer))))
      = [(9, Document, mousedown), (10, Document, touchstart), (11, Element ex_host, mouseleave)]"
    by (simp add: directive_defs ex_toggles_def)
  show ?thesis
    using subscriptions_exact[OF refl r i] r i c g by simp
qed

text \<open>
  C2 as stated fails: \<^verbatim>\<open>ngOnDestroy\<close> leaves \<^verbatim>\<open>isInitialized\<close> true, so setting
  \<^verbatim>\<open>isListening\<close> afterwards runs \<^verbatim>\<open>updateListeners\<close>, which registers the
  \<^verbatim>\<open>mousedown\<close> listener again, and a mouse-down outside the host then emits.
\<close>

theorem teardown_counterexample:
  "registered (renderer (run [NgOnInit, NgOnDestroy] (constructor ex_host fresh_renderer))) = []
   \<and> registered (renderer
        (run [NgOnInit, NgOnDestroy, SetIsListening True] (constructor ex_host fresh_renderer)))
      = [(1, Document, mousedown)]
   \<and> interactOutsideEvent
        (run [NgOnInit, NgOnDestroy, SetIsListening True,
              Dispatch Document (MouseDownEvent ex_down_outside)]
           (constructor ex_host fresh_renderer))
      = [MouseEv ex_down_outside]"
  by (simp add: directive_defs ex_nodes ex_down_outside_def)

text \<open>
  C2, as amended. \<^verbatim>\<open>ngOnDestroy\<close> after any run from construction sets the three listener
  fields to null and leaves nothing registered; a second \<^verbatim>\<open>ngOnDestroy\<close> changes nothing;
  any sequence of delivered events after it, with no configuration update or \<^verbatim>\<open>ngOnInit\<close>
  in between, leaves the directive as it is, so nothing is installed and neither emitter
  emits. \<^verbatim>\<open>ngOnDestroy\<close> does not touch \<^verbatim>\<open>isInitialized\<close>.
\<close>

theorem teardown_clears:
  assumes "d = run xs (constructor el fresh_renderer)"
    and "t = ngOnDestroy d"
    and "list_all is_dispatch ys"
  shows "mouseDownListener t = Null \<and> touchStartListener t = Null
    \<and> mouseLeaveListener t = Null
    \<and> registered (renderer t) = []
    \<and> listenersCleared (currentState t)
    \<and> ngOnDestroy t = t
    \<and> run ys t = t
    \<and> interactOutsideEvent (run ys t) = interactOutsideEvent d
    \<and> mouseLeaveEvent (run ys t) = mouseLeaveEvent d
    \<and> isInitialized t = isInitialized d"
proof -
  have sd: "synced d"
    unfolding assms(1) by (rule reachable_synced)
  have r: "registered (renderer t) = []"
    unfolding assms(2) ngOnDestroy_def using sd by (rule clearListeners_registered)
  have f: "mouseDownListener t = Null \<and> touchStartListener t = Null
      \<and> mouseLeaveListener t = Null \<and> interactOutsideEvent t = interactOutsideEvent d
      \<and> mouseLeaveEvent t = mouseLeaveEvent d \<and> isInitialized t = isInitialized d"
    by (simp add: assms(2) ngOnDestroy_def clearListeners_fields)
  have again: "ngOnDestroy t = t"
    using f by (simp add: ngOnDestroy_def clearListeners_def)
  have quiet: "run ys t = t"
    using assms(3) r by (rule run_dispatch_none)
  show ?thesis
    using r f again quiet by (simp add: currentState_def)
qed

theorem teardown_clears_witness:
  "list_all is_dispatch ex_events
   \<and> registered (renderer (run ex_all_on (constructor ex_host fresh_renderer))) \<noteq> []
   \<and> registered (renderer (ngOnDestroy (run ex_all_on (constructor ex_host fresh_renderer)))) = []
   \<and> ngOnDestroy (ngOnDestroy (run ex_all_on (constructor ex_host fresh_renderer)))
      = ngOnDestroy (run ex_all_on (constructor ex_host fresh_renderer))
   \<and> interactOutsideEvent
        (run ex_events (ngOnDestroy (run ex_all_on (constructor ex_host fresh_renderer)))) = []
   \<and> mouseLeaveEvent
        (run ex_events (ngOnDestroy (run ex_all_on (constructor ex_host fresh_renderer)))) = []
   \<and> isInitialized (ngOnDestroy (run ex_all_on (constructor ex_host fresh_renderer)))"
proof -
  have l: "list_all is_dispatch ex_events"
    by (simp add: ex_events_def)
  have c: "registered (renderer (run ex_all_on (constructor ex_host fresh_renderer))) \<noteq> []
      \<and> interactOutsideEvent (run ex_all_on (constructor ex_host fresh_renderer)) = []
      \<and> mouseLeaveEvent (run ex_all_on (constructor ex_host fresh_renderer)) = []
      \<and> isInitialized (run ex_all_on (constructor ex_host fresh_renderer))"
    by (simp add: directive_defs ex_all_on_def)
  have m: "registered (renderer
        (ngOnDestroy (run ex_all_on (constructor ex_host fresh_renderer)))) = []
      \<and> ngOnDestroy (ngOnDestroy (run ex_all_on (constructor ex_host fresh_renderer)))
         = ngOnDestroy (run ex_all_on (constructor ex_host fresh_renderer))
      \<and> interactOutsideEvent
           (run ex_events (ngOnDestroy (run ex_all_on (constructor ex_host fresh_renderer))))
         = interactOutsideEvent (run ex_all_on (constructor ex_host fresh_renderer))
      \<and> mouseLeaveEvent
           (run ex_events (ngOnDestroy (run ex_all_on (constructor ex_host fresh_renderer))))
         = mouseLeaveEvent (run ex_all_on (constructor ex_host fresh_renderer))
      \<and> isInitialized (ngOnDestroy (run ex_all_on (constructor ex_host fresh_renderer)))
         = isInitialized (run ex_all_on (constructor ex_host fresh_renderer))"
    using teardown_clears[of _ ex_all_on ex_host _ ex_events, OF refl refl l]
    by (elim conjE) (intro conjI; assumption)
  show ?thesis
    using m l c by simp
qed

text \<open>
  C3. \<^verbatim>\<open>handleMouseDown\<close>: an event whose target is a node that the host does not
  contain emits exactly that event on \<^verbatim>\<open>interactOutsideEvent\<close> and changes nothing else;
  a target that the host contains, the host itself included, emits nothing; an event
  without a target, or no event, emits nothing. While the \<^verbatim>\<open>mousedown\<close> listener is held,
  delivering a \<^verbatim>\<open>mousedown\<close> to the document calls the handler exactly once.
\<close>

theorem mouse_down_classification:
  "(target e = Some n \<and> \<not> contains (htmlElement d) n \<longrightarrow>
      handleMouseDown (Some e) d
        = d\<lparr>interactOutsideEvent := interactOutsideEvent d @ [MouseEv e]\<rparr>)
   \<and> (target e = Some n \<and> contains (htmlElement d) n \<longrightarrow> handleMouseDown (Some e) d = d)
   \<and> (target e = Some (htmlElement d) \<longrightarrow> handleMouseDown (Some e) d = d)
   \<and> (target e = None \<longrightarrow> handleMouseDown (Some e) d = d)
   \<and> handleMouseDown None d = d
   \<and> (truthy (mouseDownListener (run xs (constructor el fresh_renderer))) \<longrightarrow>
        dispatchEvent Document (MouseDownEvent e) (run xs (constructor el fresh_renderer))
          = handleMouseDown (Some e) (run xs (constructor el fresh_renderer)))"
  using dispatch_single(1)[OF reachable_synced, of xs el e]
  by (auto simp: handleMouseDown_def contains_refl)

theorem mouse_down_classification_witness:
  "handleMouseDown (Some \<lparr>target = Some ex_sibling, relatedTarget = None, toElement = None\<rparr>)
       (run [NgOnInit] (constructor ex_host fresh_renderer))
     = (run [NgOnInit] (constructor ex_host fresh_renderer))
         \<lparr>interactOutsideEvent :=
            [MouseEv \<lparr>target = Some ex_sibling, relatedTarget = None, toElement = None\<rparr>]\<rparr>
   \<and> handleMouseDown (Some \<lparr>target = Some ex_child, relatedTarget = None, toElement = None\<rparr>)
       (run [NgOnInit] (constructor ex_host fresh_renderer))
     = run [NgOnInit] (constructor ex_host fresh_renderer)
   \<and> handleMouseDown (Some \<lparr>target = Some ex_host, relatedTarget = None, toElement = None\<rparr>)
       (run [NgOnInit] (constructor ex_host fresh_renderer))
     = run [NgOnInit] (constructor ex_host fresh_renderer)
   \<and> handleMouseDown (Some \<lparr>target = None, relatedTarget = None, toElement = None\<rparr>)
       (run [NgOnInit] (constructor ex_host fresh_renderer))
     = run [NgOnInit] (constructor ex_host fresh_renderer)
   \<and> dispatchEvent Document
       (MouseDownEvent \<lparr>target = Some ex_sibling, relatedTarget = None, toElement = None\<rparr>)
       (run [NgOnInit] (constructor ex_host fresh_renderer))
     = handleMouseDown (Some \<lparr>target = Some ex_sibling, relatedTarget = None, toElement = None\<rparr>)
         (run [NgOnInit] (constructor ex_host fresh_renderer))"
  using
    mouse_down_classification[of "\<lparr>target = Some ex_sibling, relatedTarget = None, toElement = None\<rparr>"
      ex_sibling "run [NgOnInit] (constructor ex_host fresh_renderer)" "[NgOnInit]" ex_host]
    mouse_down_classification[of "\<lparr>target = Some ex_child, relatedTarget = None, toElement = None\<rparr>"
      ex_child "run [NgOnInit] (constructor ex_host fresh_renderer)" "[NgOnInit]" ex_host]
    mouse_down_classification[of "\<lparr>target = Some ex_host, relatedTarget = None, toElement = None\<rparr>"
      ex_host "run [NgOnInit] (constructor ex_host fresh_renderer)" "[NgOnInit]" ex_host]
    mouse_down_classification[of "\<lparr>target = None, relatedTarget = None, toElement = None\<rparr>"
      ex_host "run [NgOnInit] (constructor ex_host fresh_renderer)" "[NgOnInit]" ex_host]
  by (simp add: directive_defs ex_nodes)

text \<open>
  C4. \<^verbatim>\<open>handleTouchStart\<close> looks at the first entry of \<^verbatim>\<open>changedTouches\<close> only: a
  missing or empty list, a null first entry or one without target emits nothing; a first
  target outside the host emits the event once; one inside emits nothing. Two events whose
  \<^verbatim>\<open>changedTouches\<close> agree on the first entry emit equally often, whatever the rest of
  that list, \<^verbatim>\<open>touches\<close> and \<^verbatim>\<open>targetTouches\<close> hold. While the \<^verbatim>\<open>touchstart\<close>
  listener is held, delivering a \<^verbatim>\<open>touchstart\<close> to the document calls the handler
  exactly once.
\<close>

theorem touch_start_classification:
  "(changedTouches e = None \<longrightarrow> handleTouchStart (Some e) d = d)
   \<and> (changedTouches e = Some [] \<longrightarrow> handleTouchStart (Some e) d = d)
   \<and> (changedTouches e = Some (None # rest) \<longrightarrow> handleTouchStart (Some e) d = d)
   \<and> (changedTouches e = Some (Some t # rest) \<and> touch_target t = None \<longrightarrow>
        handleTouchStart (Some e) d = d)
   \<and> (changedTouches e = Some (Some t # rest) \<and> touch_target t = Some n
        \<and> \<not> contains (htmlElement d) n \<longrightarrow>
        handleTouchStart (Some e) d
          = d\<lparr>interactOutsideEvent := interactOutsideEvent d @ [TouchEv e]\<rparr>)
   \<and> (changedTouches e = Some (Some t # rest) \<and> touch_target t = Some n
        \<and> contains (htmlElement d) n \<longrightarrow>
        handleTouchStart (Some e) d = d)
   \<and> handleTouchStart None d = d
   \<and> (map_option (take 1) (changedTouches e) = map_option (take 1) (changedTouches e') \<longrightarrow>
        length (interactOutsideEvent (handleTouchStart (Some e) d))
          = length (interactOutsideEvent (handleTouchStart (Some e') d)))
   \<and> (truthy (touchStartListener (run xs (constructor el fresh_renderer))) \<longrightarrow>
        dispatchEvent Document (TouchStartEvent e) (run xs (constructor el fresh_renderer))
          = handleTouchStart (Some e) (run xs (constructor el fresh_renderer)))"
  using dispatch_single(2)[OF reachable_synced, of xs el e]
  by (auto simp: handleTouchStart_def split: option.splits list.splits)

theorem touch_start_classification_witness:
  "handleTouchStart (Some ex_touch_outside) (run ex_all_on (constructor ex_host fresh_renderer))
     = (run ex_all_on (constructor ex_host fresh_renderer))
         \<lparr>interactOutsideEvent := [TouchEv ex_touch_outside]\<rparr>
   \<and> handleTouchStart (Some ex_touch_inside) (run ex_all_on (constructor ex_host fresh_renderer))
     = run ex_all_on (constructor ex_host fresh_renderer)
   \<and> handleTouchStart (Some (ex_touch_outside\<lparr>changedTouches := None\<rparr>))
       (run ex_all_on (constructor ex_host fresh_renderer))
     = run ex_all_on (constructor ex_host fresh_renderer)
   \<and> handleTouchStart (Some (ex_touch_outside\<lparr>changedTouches := Some []\<rparr>))
       (run ex_all_on (constructor ex_host fresh_renderer))
     = run ex_all_on (constructor ex_host fresh_renderer)
   \<and> handleTouchStart (Some (ex_touch_outside\<lparr>changedTouches := Some [None]\<rparr>))
       (run ex_all_on (constructor ex_host fresh_renderer))
     = run ex_all_on (constructor ex_host fresh_renderer)
   \<and> handleTouchStart
       (Some (ex_touch_outside\<lparr>changedTouches := Some [Some \<lparr>touch_target = None\<rparr>]\<rparr>))
       (run ex_all_on (constructor ex_host fresh_renderer))
     = run ex_all_on (constructor ex_host fresh_renderer)
   \<and> length (interactOutsideEvent (handleTouchStart (Some ex_touch_outside)
        (run ex_all_on (constructor ex_host fresh_renderer))))
     = length (interactOutsideEvent (handleTouchStart
        (Some \<lparr>touches = [], targetTouches = [],
               changedTouches = Some [Some \<lparr>touch_target = Some ex_sibling\<rparr>]\<rparr>)
        (run ex_all_on (constructor ex_host fresh_renderer))))
   \<and> dispatchEvent Document (TouchStartEvent ex_touch_outside)
       (run ex_all_on (constructor ex_host fresh_renderer))
     = handleTouchStart (Some ex_touch_outside)
         (run ex_all_on (constructor ex_host fresh_renderer))"
  using
    touch_start_classification[of ex_touch_outside
      "run ex_all_on (constructor ex_host fresh_renderer)" "[]" _ _ _ ex_all_on ex_host]
    touch_start_classification[of ex_touch_outside
      "run ex_all_on (constructor ex_host fresh_renderer)"
      "[Some \<lparr>touch_target = Some ex_host\<rparr>]" "\<lparr>touch_target = Some ex_sibling\<rparr>" ex_sibling
      "\<lparr>touches = [], targetTouches = [],
        changedTouches = Some [Some \<lparr>touch_target = Some ex_sibling\<rparr>]\<rparr>" ex_all_on ex_host]
    touch_start_classification[of ex_touch_inside
      "run ex_all_on (constructor ex_host fresh_renderer)"
      "[Some \<lparr>touch_target = Some ex_sibling\<rparr>]" "\<lparr>touch_target = Some ex_child\<rparr>" ex_child
      ex_touch_inside ex_all_on ex_host]
    touch_start_classification[of "ex_touch_outside\<lparr>changedTouches := None\<rparr>"
      "run ex_all_on (constructor ex_host fresh_renderer)" "[]" _ _ _ ex_all_on ex_host]
    touch_start_classification[of "ex_touch_outside\<lparr>changedTouches := Some []\<rparr>"
      "run ex_all_on (constructor ex_host fresh_renderer)" "[]" _ _ _ ex_all_on ex_host]
    touch_start_classification[of "ex_touch_outside\<lparr>changedTouches := Some [None]\<rparr>"
      "run ex_all_on (constructor ex_host fresh_renderer)" "[]" _ _ _ ex_all_on ex_host]
    touch_start_classification[of
      "ex_touch_outside\<lparr>changedTouches := Some [Some \<lparr>touch_target = None\<rparr>]\<rparr>"
      "run ex_all_on (constructor ex_host fresh_renderer)" "[]" "\<lparr>touch_target = None\<rparr>"
      _ _ ex_all_on ex_host]
  by (simp add: directive_defs ex_nodes ex_touch_outside_def ex_touch_inside_def ex_all_on_def)

text \<open>
  C5. \<^verbatim>\<open>handleMouseLeave\<close> emits the event on \<^verbatim>\<open>mouseLeaveEvent\<close> if and only if
  \<^verbatim>\<open>relatedTarget\<close> or \<^verbatim>\<open>toElement\<close> is not null; with both null nothing changes.
  While the \<^verbatim>\<open>mouseleave\<close> listener is held, delivering a \<^verbatim>\<open>mouseleave\<close> to the host
  element calls the handler exactly once.
\<close>

theorem mouse_leave_filter:
  "(mouseLeaveEvent (handleMouseLeave (Some e) d) = mouseLeaveEvent d @ [e])
     = (relatedTarget e \<noteq> None \<or> toElement e \<noteq> None)
   \<and> (relatedTarget e = None \<and> toElement e = None \<longrightarrow> handleMouseLeave (Some e) d = d)
   \<and> (relatedTarget e \<noteq> None \<or> toElement e \<noteq> None \<longrightarrow>
        handleMouseLeave (Some e) d = d\<lparr>mouseLeaveEvent := mouseLeaveEvent d @ [e]\<rparr>)
   \<and> handleMouseLeave None d = d
   \<and> (truthy (mouseLeaveListener (run xs (constructor el fresh_renderer))) \<longrightarrow>
        dispatchEvent (Element (htmlElement (run xs (constructor el fresh_renderer))))
            (MouseLeaveEvent e) (run xs (constructor el fresh_renderer))
          = handleMouseLeave (Some e) (run xs (constructor el fresh_renderer)))"
  using dispatch_single(3)[OF reachable_synced, of xs el e]
  by (auto simp: handleMouseLeave_def)

theorem mouse_leave_filter_witness:
  "handleMouseLeave (Some \<lparr>target = Some ex_host, relatedTarget = None, toElement = None\<rparr>)
       (run ex_all_on (constructor ex_host fresh_renderer))
     = run ex_all_on (constructor ex_host fresh_renderer)
   \<and> handleMouseLeave
       (Some \<lparr>target = Some ex_host, relatedTarget = None, toElement = Some ex_sibling\<rparr>)
       (run ex_all_on (constructor ex_host fresh_renderer))
     = (run ex_all_on (constructor ex_host fresh_renderer))
         \<lparr>mouseLeaveEvent :=
            [\<lparr>target = Some ex_host, relatedTarget = None, toElement = Some ex_sibling\<rparr>]\<rparr>
   \<and> handleMouseLeave
       (Some \<lparr>target = Some ex_host, relatedTarget = Some ex_parent, toElement = None\<rparr>)
       (run ex_all_on (constructor ex_host fresh_renderer))
     = (run ex_all_on (constructor ex_host fresh_renderer))
         \<lparr>mouseLeaveEvent :=
            [\<lparr>target = Some ex_host, relatedTarget = Some ex_parent, toElement = None\<rparr>]\<rparr>
   \<and> dispatchEvent (Element ex_host)
       (MouseLeaveEvent \<lparr>target = Some ex_host, relatedTarget = None, toElement = None\<rparr>)
       (run ex_all_on (constructor ex_host fresh_renderer))
     = run ex_all_on (constructor ex_host fresh_renderer)"
  using
    mouse_leave_filter[of "\<lparr>target = Some ex_host, relatedTarget = None, toElement = None\<rparr>"
      "run ex_all_on (constructor ex_host fresh_renderer)" ex_all_on ex_host]
    mouse_leave_filter[of
      "\<lparr>target = Some ex_host, relatedTarget = None, toElement = Some ex_sibling\<rparr>"
      "run ex_all_on (constructor ex_host fresh_renderer)" ex_all_on ex_host]
    mouse_leave_filter[of
      "\<lparr>target = Some ex_host, relatedTarget = Some ex_parent, toElement = None\<rparr>"
      "run ex_all_on (constructor ex_host fresh_renderer)" ex_all_on ex_host]
  by (simp add: directive_defs ex_nodes ex_all_on_def)

text \<open>
  C6. On an initialised directive reached by any run from construction, setting
  \<^verbatim>\<open>isListening\<close> to false leaves nothing registered and no listener field held, whatever
  the three flags are, and keeps the flags; any sequence of delivered events then changes
  nothing, so neither emitter emits. Setting \<^verbatim>\<open>isListening\<close> back to true holds and
  registers a listener for exactly the kinds whose flag is true, the flags still being
  those from before.
\<close>

theorem master_switch:
  assumes "d = run xs (constructor el fresh_renderer)"
    and "isInitialized d"
    and "off = set_isListening False d"
    and "list_all is_dispatch ys"
    and "on = set_isListening True (run ys off)"
  shows "registered (renderer off) = []
    \<and> \<not> truthy (mouseDownListener off) \<and> \<not> truthy (touchStartListener off)
    \<and> \<not> truthy (mouseLeaveListener off)
    \<and> listenersCleared (currentState off)
    \<and> u_listenMouseDownOutside off = u_listenMouseDownOutside d
    \<and> u_listenTouchStartOutside off = u_listenTouchStartOutside d
    \<and> u_listenMouseLeave off = u_listenMouseLeave d
    \<and> run ys off = off
    \<and> interactOutsideEvent (run ys off) = interactOutsideEvent d
    \<and> mouseLeaveEvent (run ys off) = mouseLeaveEvent d
    \<and> truthy (mouseDownListener on) = u_listenMouseDownOutside d
    \<and> truthy (touchStartListener on) = u_listenTouchStartOutside d
    \<and> truthy (mouseLeaveListener on) = u_listenMouseLeave d
    \<and> registered (renderer on) = owned on
    \<and> installed mousedown on = (if u_listenMouseDownOutside d then 1 else 0)
    \<and> installed touchstart on = (if u_listenTouchStartOutside d then 1 else 0)
    \<and> installed mouseleave on = (if u_listenMouseLeave d then 1 else 0)
    \<and> u_listenMouseDownOutside on = u_listenMouseDownOutside d
    \<and> u_listenTouchStartOutside on = u_listenTouchStartOutside d
    \<and> u_listenMouseLeave on = u_listenMouseLeave d"
proof -
  have sd: "synced d"
    unfolding assms(1) by (rule reachable_synced)
  have off: "off = updateListeners (d\<lparr>u_isListening := False\<rparr>)"
    using assms(2) by (simp add: assms(3) set_isListening_def)
  have s0: "synced (d\<lparr>u_isListening := False\<rparr>)"
    using sd by (simp add: synced_config)
  have soff: "synced off"
    unfolding off using s0 by (rule updateListeners_synced)
  have hoff: "\<not> truthy (mouseDownListener off) \<and> \<not> truthy (touchStartListener off)
      \<and> \<not> truthy (mouseLeaveListener off)"
    by (simp add: off updateListeners_handles)
  have roff: "registered (renderer off) = []"
    using soff hoff
    by (cases "mouseDownListener off"; cases "touchStartListener off";
        cases "mouseLeaveListener off")
       (simp_all add: synced_def owned_def)
  have quiet: "run ys off = off"
    using assms(4) roff by (rule run_dispatch_none)
  have foff: "u_listenMouseDownOutside off = u_listenMouseDownOutside d
      \<and> u_listenTouchStartOutside off = u_listenTouchStartOutside d
      \<and> u_listenMouseLeave off = u_listenMouseLeave d
      \<and> interactOutsideEvent off = interactOutsideEvent d
      \<and> mouseLeaveEvent off = mouseLeaveEvent d
      \<and> isInitialized off"
    using assms(2) by (simp add: off updateListeners_fields)
  have on: "on = updateListeners (off\<lparr>u_isListening := True\<rparr>)"
    using foff by (simp add: assms(5) quiet set_isListening_def)
  have son: "synced on"
    unfolding on using soff by (simp add: updateListeners_synced synced_config)
  have hon: "truthy (mouseDownListener on) = u_listenMouseDownOutside d
      \<and> truthy (touchStartListener on) = u_listenTouchStartOutside d
      \<and> truthy (mouseLeaveListener on) = u_listenMouseLeave d"
    using foff by (simp add: on updateListeners_handles)
  have fon: "u_listenMouseDownOutside on = u_listenMouseDownOutside d
      \<and> u_listenTouchStartOutside on = u_listenTouchStartOutside d
      \<and> u_listenMouseLeave on = u_listenMouseLeave d"
    using foff by (simp add: on updateListeners_fields)
  have cs: "listenersCleared (currentState off)"
    using hoff by (simp add: currentState_def)
  show ?thesis
    using roff hoff cs foff quiet hon fon son synced_installed[OF son]
    by (simp add: synced_def)
qed

theorem master_switch_witness:
  "isInitialized (run ex_all_on (constructor ex_host fresh_renderer))
   \<and> list_all is_dispatch ex_events
   \<and> u_listenMouseDownOutside (run ex_all_on (constructor ex_host fresh_renderer))
   \<and> u_listenTouchStartOutside (run ex_all_on (constructor ex_host fresh_renderer))
   \<and> u_listenMouseLeave (run ex_all_on (constructor ex_host fresh_renderer))
   \<and> registered (renderer
        (set_isListening False (run ex_all_on (constructor ex_host fresh_renderer)))) = []
   \<and> interactOutsideEvent (run ex_events
        (set_isListening False (run ex_all_on (constructor ex_host fresh_renderer)))) = []
   \<and> mouseLeaveEvent (run ex_events
        (set_isListening False (run ex_all_on (constructor ex_host fresh_renderer)))) = []
   \<and> installed mousedown (set_isListening True (run ex_events
        (set_isListening False (run ex_all_on (constructor ex_host fresh_renderer))))) = 1
   \<and> installed touchstart (set_isListening True (run ex_events
        (set_isListening False (run ex_all_on (constructor ex_host fresh_renderer))))) = 1
   \<and> installed mouseleave (set_isListening True (run ex_events
        (set_isListening False (run ex_all_on (constructor ex_host fresh_renderer))))) = 1"
proof -
  have i: "isInitialized (run ex_all_on (constructor ex_host fresh_renderer))"
    by (simp add: directive_defs ex_all_on_def)
  have l: "list_all is_dispatch ex_events"
    by (simp add: ex_events_def)
  have c: "u_listenMouseDownOutside (run ex_all_on (constructor ex_host fresh_renderer))
      \<and> u_listenTouchStartOutside (run ex_all_on (constructor ex_host fresh_renderer))
      \<and> u_listenMouseLeave (run ex_all_on (constructor ex_host fresh_renderer))
      \<and> interactOutsideEvent (run ex_all_on (constructor ex_host fresh_renderer)) = []
      \<and> mouseLeaveEvent (run ex_all_on (constructor ex_host fresh_renderer)) = []"
    by (simp add: directive_defs ex_all_on_def)
  have m: "registered (renderer
        (set_isListening False (run ex_all_on (constructor ex_host fresh_renderer)))) = []
      \<and> interactOutsideEvent (run ex_events
           (set_isListening False (run ex_all_on (constructor ex_host fresh_renderer))))
         = interactOutsideEvent (run ex_all_on (constructor ex_host fresh_renderer))
      \<and> mouseLeaveEvent (run ex_events
           (set_isListening False (run ex_all_on (constructor ex_host fresh_renderer))))
         = mouseLeaveEvent (run ex_all_on (constructor ex_host fresh_renderer))
      \<and> installed mousedown (set_isListening True (run ex_events
           (set_isListening False (run ex_all_on (constructor ex_host fresh_renderer)))))
         = (if u_listenMouseDownOutside (run ex_all_on (constructor ex_host fresh_renderer))
            then 1 else 0)
      \<and> installed touchstart (set_isListening True (run ex_events
           (set_isListening False (run ex_all_on (constructor ex_host fresh_renderer)))))
         = (if u_listenTouchStartOutside (run ex_all_on (constructor ex_host fresh_renderer))
            then 1 else 0)
      \<and> installed mouseleave (set_isListening True (run ex_events
           (set_isListening False (run ex_all_on (constructor ex_host fresh_renderer)))))
         = (if u_listenMouseLeave (run ex_all_on (constructor ex_host fresh_renderer))
            then 1 else 0)"
    using master_switch[of _ ex_all_on ex_host _ ex_events, OF refl i refl l refl]
    by (elim conjE) (intro conjI; assumption)
  show ?thesis
    using m i l c by simp
qed

text \<open>
  C7. Right after construction, before \<^verbatim>\<open>ngOnInit\<close>, \<^verbatim>\<open>currentState\<close> reports
  \<^verbatim>\<open>isListening = true\<close>, \<^verbatim>\<open>listenMouseDownOutside = true\<close>,
  \<^verbatim>\<open>listenTouchStartOutside = false\<close>, \<^verbatim>\<open>listenMouseLeave = false\<close> and
  \<^verbatim>\<open>listenersCleared = true\<close>; the constructor registers nothing with the renderer, holds
  no listener and leaves the directive uninitialised.
\<close>

theorem default_configuration:
  "currentState (constructor el rend) =
     \<lparr>isListening = True, listenMouseDownOutside = True, listenTouchStartOutside = False,
      listenMouseLeave = False, listenersCleared = True\<rparr>
   \<and> renderer (constructor el rend) = rend
   \<and> owned (constructor el rend) = []
   \<and> \<not> isInitialized (constructor el rend)"
  by (simp add: constructor_def currentState_def owned_def)

text \<open>
  C8. After construction and any run of configuration updates alone, the directive is not
  initialised, the three listener fields are still unassigned and the renderer is the one
  passed in, untouched; a further update stores its value and does nothing else. The
  following \<^verbatim>\<open>ngOnInit\<close> initialises the directive and registers, on top of what the
  renderer held, listeners for exactly the kinds that the stored configuration enables.
\<close>

theorem updates_before_activation:
  assumes "list_all is_update xs"
    and "d = run xs (constructor el rend)"
  shows "\<not> isInitialized d
    \<and> mouseDownListener d = Undefined \<and> touchStartListener d = Undefined
    \<and> mouseLeaveListener d = Undefined
    \<and> renderer d = rend
    \<and> listenersCleared (currentState d)
    \<and> set_isListening v d = d\<lparr>u_isListening := v\<rparr>
    \<and> set_listenMouseDownOutside v d = d\<lparr>u_listenMouseDownOutside := v\<rparr>
    \<and> set_listenTouchStartOutside v d = d\<lparr>u_listenTouchStartOutside := v\<rparr>
    \<and> set_listenMouseLeave v d = d\<lparr>u_listenMouseLeave := v\<rparr>
    \<and> isInitialized (ngOnInit d)
    \<and> truthy (mouseDownListener (ngOnInit d)) = (u_isListening d \<and> u_listenMouseDownOutside d)
    \<and> truthy (touchStartListener (ngOnInit d)) = (u_isListening d \<and> u_listenTouchStartOutside d)
    \<and> truthy (mouseLeaveListener (ngOnInit d)) = (u_isListening d \<and> u_listenMouseLeave d)
    \<and> registered (renderer (ngOnInit d)) = registered rend @ owned (ngOnInit d)"
proof -
  have u: "untouched el rend d"
    unfolding assms(2) using assms(1) constructor_untouched by (rule run_updates_untouched)
  have a: "\<not> isInitialized d \<and> mouseDownListener d = Undefined
      \<and> touchStartListener d = Undefined \<and> mouseLeaveListener d = Undefined
      \<and> renderer d = rend"
    using u by (simp add: untouched_def)
  have b: "set_isListening v d = d\<lparr>u_isListening := v\<rparr>
      \<and> set_listenMouseDownOutside v d = d\<lparr>u_listenMouseDownOutside := v\<rparr>
      \<and> set_listenTouchStartOutside v d = d\<lparr>u_listenTouchStartOutside := v\<rparr>
      \<and> set_listenMouseLeave v d = d\<lparr>u_listenMouseLeave := v\<rparr>"
    using a
    by (simp add: set_isListening_def set_listenMouseDownOutside_def
        set_listenTouchStartOutside_def set_listenMouseLeave_def)
  have c: "isInitialized (ngOnInit d)
      \<and> truthy (mouseDownListener (ngOnInit d)) = (u_isListening d \<and> u_listenMouseDownOutside d)
      \<and> truthy (touchStartListener (ngOnInit d))
          = (u_isListening d \<and> u_listenTouchStartOutside d)
      \<and> truthy (mouseLeaveListener (ngOnInit d)) = (u_isListening d \<and> u_listenMouseLeave d)"
    by (simp add: ngOnInit_def updateListeners_fields updateListeners_handles)
  show ?thesis
    using a b c ngOnInit_untouched[OF u] by (simp add: currentState_def)
qed

theorem updates_before_activation_witness:
  "list_all is_update ex_updates
   \<and> \<not> isInitialized (run ex_updates (constructor ex_host fresh_renderer))
   \<and> renderer (run ex_updates (constructor ex_host fresh_renderer)) = fresh_renderer
   \<and> listenersCleared (currentState (run ex_updates (constructor ex_host fresh_renderer)))
   \<and> set_listenMouseLeave False (run ex_updates (constructor ex_host fresh_renderer))
      = (run ex_updates (constructor ex_host fresh_renderer))\<lparr>u_listenMouseLeave := False\<rparr>
   \<and> registered (renderer (ngOnInit (run ex_updates (constructor ex_host fresh_renderer))))
      = [(0, Document, touchstart), (1, Element ex_host, mouseleave)]"
proof -
  have l: "list_all is_update ex_updates"
    by (simp add: ex_updates_def)
  have g: "owned (ngOnInit (run ex_updates (constructor ex_host fresh_renderer)))
      = [(0, Document, touchstart), (1, Element ex_host, mouseleave)]"
    by (simp add: directive_defs ex_updates_def owned_def)
  show ?thesis
    using updates_before_activation[OF l refl, of ex_host fresh_renderer False] l g
    by (simp add: fresh_renderer_def)
qed

text \<open>
  C9 as stated fails after a teardown: \<^verbatim>\<open>ngOnDestroy\<close> nulls the listener fields and
  leaves \<^verbatim>\<open>isInitialized\<close> and the flags as they were, so setting \<^verbatim>\<open>isListening\<close> to
  the value it has (true) runs \<^verbatim>\<open>updateListeners\<close>, which registers the \<^verbatim>\<open>mousedown\<close>
  listener again: \<^verbatim>\<open>listenersCleared\<close> goes from true to false.
\<close>

theorem redundant_update_counterexample:
  "isInitialized (run [NgOnInit, NgOnDestroy] (constructor ex_host fresh_renderer))
   \<and> u_isListening (run [NgOnInit, NgOnDestroy] (constructor ex_host fresh_renderer)) = True
   \<and> listenersCleared
        (currentState (run [NgOnInit, NgOnDestroy] (constructor ex_host fresh_renderer)))
      = True
   \<and> listenersCleared
        (currentState (set_isListening True
           (run [NgOnInit, NgOnDestroy] (constructor ex_host fresh_renderer))))
      = False
   \<and> currentState (set_isListening True
        (run [NgOnInit, NgOnDestroy] (constructor ex_host fresh_renderer)))
      \<noteq> currentState (run [NgOnInit, NgOnDestroy] (constructor ex_host fresh_renderer))
   \<and> registered (renderer (run [NgOnInit, NgOnDestroy] (constructor ex_host fresh_renderer)))
      = []
   \<and> registered (renderer (set_isListening True
        (run [NgOnInit, NgOnDestroy] (constructor ex_host fresh_renderer))))
      = [(1, Document, mousedown)]"
  by (simp add: directive_defs currentState_def)

text \<open>
  C9, as amended. Take any run from construction (teardowns included) in which some
  \<^verbatim>\<open>ngOnInit\<close> or configuration update ran \<^verbatim>\<open>updateListeners\<close> on the initialised
  directive and no \<^verbatim>\<open>ngOnDestroy\<close> came after it. Then setting any of the four inputs to
  the value it has leaves \<^verbatim>\<open>currentState\<close> (the four flags and \<^verbatim>\<open>listenersCleared\<close>)
  as it was, and the number of listeners registered under each event name too.
\<close>

theorem redundant_update:
  assumes "d = run ys (step x (run pre (constructor el fresh_renderer)))"
    and "rederives x"
    and "isInitialized (step x (run pre (constructor el fresh_renderer)))"
    and "NgOnDestroy \<notin> set ys"
  shows "isInitialized d
    \<and> currentState (set_isListening (u_isListening d) d) = currentState d
    \<and> currentState (set_listenMouseDownOutside (u_listenMouseDownOutside d) d) = currentState d
    \<and> currentState (set_listenTouchStartOutside (u_listenTouchStartOutside d) d)
        = currentState d
    \<and> currentState (set_listenMouseLeave (u_listenMouseLeave d) d) = currentState d
    \<and> installed name (set_isListening (u_isListening d) d) = installed name d
    \<and> installed name (set_listenMouseDownOutside (u_listenMouseDownOutside d) d)
        = installed name d
    \<and> installed name (set_listenTouchStartOutside (u_listenTouchStartOutside d) d)
        = installed name d
    \<and> installed name (set_listenMouseLeave (u_listenMouseLeave d) d) = installed name d"
proof -
  let ?m = "step x (run pre (constructor el fresh_renderer))"
  from step_rederives[OF assms(2,3)] obtain d' where "?m = updateListeners d'"
    by blast
  then have "derived ?m"
    by (simp add: updateListeners_derived)
  then have "isInitialized ?m \<longrightarrow> derived ?m"
    by simp
  from run_derived[OF assms(4) this] have imp: "isInitialized d \<longrightarrow> derived d"
    by (simp add: assms(1))
  have ini: "isInitialized d"
    unfolding assms(1) using assms(3) by (rule run_isInitialized)
  have der: "derived d"
    using imp ini by simp
  have "synced ?m"
    using reachable_synced by (rule step_synced)
  then have sd: "synced d"
    unfolding assms(1) by (rule run_synced)
  have same: "set_isListening (u_isListening d) d = updateListeners d"
    "set_listenMouseDownOutside (u_listenMouseDownOutside d) d = updateListeners d"
    "set_listenTouchStartOutside (u_listenTouchStartOutside d) d = updateListeners d"
    "set_listenMouseLeave (u_listenMouseLeave d) d = updateListeners d"
    using ini
    by (simp_all add: set_isListening_def set_listenMouseDownOutside_def
        set_listenTouchStartOutside_def set_listenMouseLeave_def)
  show ?thesis
    unfolding same
    using ini updateListeners_currentState[OF der] updateListeners_installed[OF sd der]
    by simp
qed

theorem redundant_update_witness:
  "rederives (SetListenMouseLeave True)
   \<and> isInitialized (step (SetListenMouseLeave True)
        (run [NgOnInit, NgOnDestroy] (constructor ex_host fresh_renderer)))
   \<and> NgOnDestroy \<notin> set ex_events
   \<and> currentState (set_isListening True (run ex_events (step (SetListenMouseLeave True)
        (run [NgOnInit, NgOnDestroy] (constructor ex_host fresh_renderer)))))
      = currentState (run ex_events (step (SetListenMouseLeave True)
        (run [NgOnInit, NgOnDestroy] (constructor ex_host fresh_renderer))))
   \<and> currentState (set_listenTouchStartOutside False (run ex_events
        (step (SetListenMouseLeave True)
          (run [NgOnInit, NgOnDestroy] (constructor ex_host fresh_renderer)))))
      = currentState (run ex_events (step (SetListenMouseLeave True)
        (run [NgOnInit, NgOnDestroy] (constructor ex_host fresh_renderer))))
   \<and> installed mousedown (set_listenMouseDownOutside True (run ex_events
        (step (SetListenMouseLeave True)
          (run [NgOnInit, NgOnDestroy] (constructor ex_host fresh_renderer)))))
      = installed mousedown (run ex_events (step (SetListenMouseLeave True)
        (run [NgOnInit, NgOnDestroy] (constructor ex_host fresh_renderer))))
   \<and> \<not> listenersCleared (currentState (run ex_events (step (SetListenMouseLeave True)
        (run [NgOnInit, NgOnDestroy] (constructor ex_host fresh_renderer)))))"
proof -
  have r: "rederives (SetListenMouseLeave True)"
    by (simp add: rederives_def)
  have i: "isInitialized (step (SetListenMouseLeave True)
      (run [NgOnInit, NgOnDestroy] (constructor ex_host fresh_renderer)))"
    by (simp add: directive_defs)
  have n: "NgOnDestroy \<notin> set ex_events"
    by (simp add: ex_events_def)
  have c: "u_isListening (run ex_events (step (SetListenMouseLeave True)
        (run [NgOnInit, NgOnDestroy] (constructor ex_host fresh_renderer)))) = True
      \<and> u_listenTouchStartOutside (run ex_events (step (SetListenMouseLeave True)
        (run [NgOnInit, NgOnDestroy] (constructor ex_host fresh_renderer)))) = False
      \<and> u_listenMouseDownOutside (run ex_events (step (SetListenMouseLeave True)
        (run [NgOnInit, NgOnDestroy] (constructor ex_host fresh_renderer)))) = True
      \<and> \<not> listenersCleared (currentState (run ex_events (step (SetListenMouseLeave True)
        (run [NgOnInit, NgOnDestroy] (constructor ex_host fresh_renderer)))))"
    by (simp add: directive_defs ex_events_def currentState_def ex_nodes ex_down_outside_def
        ex_touch_outside_def ex_leave_def)
  show ?thesis
    using redundant_update[OF refl r i n, of mousedown] r i n c by simp
qed

text \<open>
  C10. The three handlers, and the delivery of any event to any target, leave the four
  configuration flags, the host element, the initialisation flag, the three listener
  fields and the renderer as they were, hence \<^verbatim>\<open>currentState\<close> too; the mouse handlers
  and the touch handler each leave the other emitter alone.
\<close>

theorem handlers_read_only:
  "component_state (handleMouseDown md d) = component_state d
   \<and> component_state (handleTouchStart ts d) = component_state d
   \<and> component_state (handleMouseLeave ml d) = component_state d
   \<and> component_state (dispatchEvent tgt ev d) = component_state d
   \<and> currentState (handleMouseDown md d) = currentState d
   \<and> currentState (handleTouchStart ts d) = currentState d
   \<and> currentState (handleMouseLeave ml d) = currentState d
   \<and> currentState (dispatchEvent tgt ev d) = currentState d
   \<and> mouseLeaveEvent (handleMouseDown md d) = mouseLeaveEvent d
   \<and> mouseLeaveEvent (handleTouchStart ts d) = mouseLeaveEvent d
   \<and> interactOutsideEvent (handleMouseLeave ml d) = interactOutsideEvent d"
  by (simp add: handleMouseDown_component handleTouchStart_component
      handleMouseLeave_component dispatchEvent_component
      component_currentState[OF handleMouseDown_component]
      component_currentState[OF handleTouchStart_component]
      component_currentState[OF handleMouseLeave_component]
      component_currentState[OF dispatchEvent_component])
     (simp add: handleMouseDown_def handleTouchStart_def handleMouseLeave_def
        split: option.splits list.splits)

theorem handlers_read_only_witness:
  "component_state (handleMouseDown (Some ex_down_outside)
       (run ex_all_on (constructor ex_host fresh_renderer)))
     = component_state (run ex_all_on (constructor ex_host fresh_renderer))
   \<and> interactOutsideEvent (handleMouseDown (Some ex_down_outside)
       (run ex_all_on (constructor ex_host fresh_renderer))) = [MouseEv ex_down_outside]
   \<and> currentState (handleTouchStart (Some ex_touch_outside)
       (run ex_all_on (constructor ex_host fresh_renderer)))
     = currentState (run ex_all_on (constructor ex_host fresh_renderer))
   \<and> interactOutsideEvent (handleTouchStart (Some ex_touch_outside)
       (run ex_all_on (constructor ex_host fresh_renderer))) = [TouchEv ex_touch_outside]
   \<and> component_state (dispatchEvent (Element ex_host) (MouseLeaveEvent ex_leave)
       (run ex_all_on (constructor ex_host fresh_renderer)))
     = component_state (run ex_all_on (constructor ex_host fresh_renderer))
   \<and> mouseLeaveEvent (dispatchEvent (Element ex_host) (MouseLeaveEvent ex_leave)
       (run ex_all_on (constructor ex_host fresh_renderer))) = [ex_leave]"
  using handlers_read_only[of "Some ex_down_outside"
      "run ex_all_on (constructor ex_host fresh_renderer)" "Some ex_touch_outside"
      "Some ex_leave" "Element ex_host" "MouseLeaveEvent ex_leave"]
  by (simp add: directive_defs ex_nodes ex_all_on_def ex_down_outside_def ex_leave_def
      ex_touch_outside_def)

end
